theory Spec2Isabelle
  imports Complex_Main
begin

section \<open>Python floats: IEEE 754 binary64 with round-half-to-even\<close>

text \<open>
  \<^verbatim>\<open>price: float\<close> in \<^verbatim>\<open>main.py\<close> is a binary64 value. A finite float is modelled
  by the rational number it denotes, so equality of floats is equality of values
  (\<^verbatim>\<open>-0.0 == 0.0\<close> in Python as well); the two infinities and NaN are separate
  constructors. Every arithmetic result is the exact rational result rounded to the
  nearest representable value, ties to the even mantissa, with 53 bits of mantissa,
  gradual underflow below \<open>2^-1022\<close> and overflow to an infinity from \<open>2^1024\<close> on.
\<close>

datatype double = Fin rat | PInf | NInf | NaN

text \<open>\<^verbatim>\<open>int.bit_length\<close> on non-negative integers.\<close>

function bit_length :: "int \<Rightarrow> nat" where
  "bit_length n = (if n \<le> 0 then 0 else Suc (bit_length (n div 2)))"
  by pat_completeness auto
termination
  by (relation "measure nat") auto

declare bit_length.simps [simp del]

definition pow2 :: "int \<Rightarrow> rat" where
  "pow2 e = (if 0 \<le> e then 2 ^ nat e else 1 / 2 ^ nat (- e))"

definition floor_log2 :: "rat \<Rightarrow> int" where
  \<comment> \<open>for \<open>0 < x\<close>: the \<open>e\<close> with \<open>2^e \<le> x < 2^(e+1)\<close>\<close>
  "floor_log2 x =
     (if 1 \<le> x then int (bit_length \<lfloor>x\<rfloor>) - 1
      else - int (bit_length (\<lceil>1 / x\<rceil> - 1)))"

definition round_half_even :: "rat \<Rightarrow> int" where
  "round_half_even x =
     (let f = \<lfloor>x\<rfloor>; r = x - of_int f
      in if r < 1 / 2 then f
         else if 1 / 2 < r then f + 1
         else if even f then f else f + 1)"

definition round_double :: "rat \<Rightarrow> double" where
  "round_double x =
     (if x = 0 then Fin 0
      else let e = max (floor_log2 \<bar>x\<bar>) (- 1022);
               ulp = pow2 (e - 52);
               r = of_int (round_half_even (x / ulp)) * ulp
           in if 2 ^ 1024 \<le> \<bar>r\<bar> then (if 0 < x then PInf else NInf) else Fin r)"

fun float_add :: "double \<Rightarrow> double \<Rightarrow> double" where
  "float_add (Fin a) (Fin b) = round_double (a + b)"
| "float_add NaN _ = NaN"
| "float_add _ NaN = NaN"
| "float_add PInf NInf = NaN"
| "float_add NInf PInf = NaN"
| "float_add PInf _ = PInf"
| "float_add _ PInf = PInf"
| "float_add NInf _ = NInf"
| "float_add _ NInf = NInf"

fun float_mul :: "double \<Rightarrow> double \<Rightarrow> double" where
  "float_mul (Fin a) (Fin b) = round_double (a * b)"
| "float_mul NaN _ = NaN"
| "float_mul _ NaN = NaN"
| "float_mul (Fin a) PInf = (if a = 0 then NaN else if 0 < a then PInf else NInf)"
| "float_mul (Fin a) NInf = (if a = 0 then NaN else if 0 < a then NInf else PInf)"
| "float_mul PInf (Fin b) = (if b = 0 then NaN else if 0 < b then PInf else NInf)"
| "float_mul NInf (Fin b) = (if b = 0 then NaN else if 0 < b then NInf else PInf)"
| "float_mul PInf PInf = PInf"
| "float_mul NInf NInf = PInf"
| "float_mul PInf NInf = NInf"
| "float_mul NInf PInf = NInf"

section \<open>Errors\<close>

text \<open>
  \<^verbatim>\<open>raise HTTPException(status_code=..., detail=...)\<close> is the value
  \<open>HTTPException status detail\<close>. \<open>OverflowError\<close> is what Python raises when an
  \<^verbatim>\<open>int\<close> operand of a float multiplication is too large to convert to a float.
\<close>

datatype error = HTTPException nat string | OverflowError

definition float_of_int :: "int \<Rightarrow> error + double" where
  "float_of_int n =
     (case round_double (of_int n) of Fin r \<Rightarrow> Inr (Fin r) | _ \<Rightarrow> Inl OverflowError)"

definition float_mul_int :: "double \<Rightarrow> int \<Rightarrow> error + double" where
  \<comment> \<open>\<^verbatim>\<open>product["price"] * cart_item["quantity"]\<close>: float times int\<close>
  "float_mul_int x n =
     (case float_of_int n of Inl e \<Rightarrow> Inl e | Inr y \<Rightarrow> Inr (float_mul x y))"

section \<open>Models and sample data\<close>

record Product =
  p_id :: int
  p_name :: string
  p_description :: "string option"
  p_price :: double
  p_image :: "string option"

record UserRegister =
  reg_username :: string
  reg_email :: string
  reg_password :: string

record UserLogin =
  username_or_email :: string
  login_password :: string

record UserResponse =
  r_id :: int
  r_username :: string
  r_email :: string

record CartItem =
  product_id :: int
  quantity :: int

text \<open>The dictionaries stored in \<^verbatim>\<open>users_db\<close>.\<close>

record user =
  u_id :: int
  u_username :: string
  u_email :: string
  u_hashed_password :: string

text \<open>The dictionaries appended to \<^verbatim>\<open>cart_items\<close> by \<^verbatim>\<open>get_cart\<close> and \<^verbatim>\<open>checkout\<close>.\<close>

record cart_line =
  cl_product_id :: int
  cl_name :: string
  cl_price :: double
  cl_quantity :: int
  cl_item_total :: double
  cl_image :: "string option"

record order_line =
  ol_product_id :: int
  ol_name :: string
  ol_price :: double
  ol_quantity :: int
  ol_item_total :: double

record CartResponse =
  cr_user_id :: int
  cr_items :: "cart_line list"
  cr_total_items :: int

record CheckoutResponse =
  co_user_id :: int
  co_items :: "order_line list"
  co_subtotal :: double
  co_total :: double
  co_message :: string

record login_response =
  lr_message :: string
  lr_user :: UserResponse

record add_response =
  ar_message :: string
  ar_cart_item :: CartItem
  ar_user_id :: int

text \<open>A float literal denotes the double nearest to its decimal value.\<close>

definition sample_products :: "Product list" where
  "sample_products =
     [\<lparr>p_id = 1, p_name = ''iPhone 15 Pro'',
       p_description = Some ''Latest iPhone with advanced camera'',
       p_price = round_double (99999 / 100),
       p_image = Some ''https://example.com/iphone15.jpg''\<rparr>,
      \<lparr>p_id = 2, p_name = ''Samsung Galaxy S23'',
       p_description = Some ''Powerful Android smartphone'',
       p_price = round_double (89999 / 100),
       p_image = Some ''https://example.com/galaxy_s23.jpg''\<rparr>,
      \<lparr>p_id = 3, p_name = ''MacBook Air M2'',
       p_description = Some ''Ultra-thin laptop with M2 chip'',
       p_price = round_double (129999 / 100),
       p_image = Some ''https://example.com/macbook_air.jpg''\<rparr>,
      \<lparr>p_id = 4, p_name = ''Sony Headphones'',
       p_description = Some ''Wireless noise-canceling headphones'',
       p_price = round_double (34999 / 100),
       p_image = Some ''https://example.com/sony_headphones.jpg''\<rparr>,
      \<lparr>p_id = 5, p_name = ''Nike Shoes'',
       p_description = Some ''Classic basketball shoes'',
       p_price = round_double (17599 / 100),
       p_image = Some ''https://example.com/nike_shoes.jpg''\<rparr>]"

section \<open>In-memory storage\<close>

record state =
  users_db :: "user list"
  next_user_id :: int
  carts_db :: "int \<rightharpoonup> CartItem list"

definition init_state :: state where
  "init_state = \<lparr>users_db = [], next_user_id = 1, carts_db = Map.empty\<rparr>"

section \<open>Helper functions\<close>

text \<open>
  \<^verbatim>\<open>bcrypt\<close> is outside the repository: \<open>hashpw\<close> (password, then salt) and
  \<open>checkpw\<close> are parameters, and the salt drawn by \<^verbatim>\<open>bcrypt.gensalt()\<close> is an input
  of \<open>hash_password\<close>.
\<close>

definition hash_password :: "(string \<Rightarrow> string \<Rightarrow> string) \<Rightarrow> string \<Rightarrow> string \<Rightarrow> string" where
  "hash_password hashpw salt password = hashpw password salt"

definition verify_password :: "(string \<Rightarrow> string \<Rightarrow> bool) \<Rightarrow> string \<Rightarrow> string \<Rightarrow> bool" where
  "verify_password checkpw plain_password hashed_password = checkpw plain_password hashed_password"

fun find_user_by_username_in :: "user list \<Rightarrow> string \<Rightarrow> user option" where
  "find_user_by_username_in [] username = None"
| "find_user_by_username_in (u # us) username =
     (if u_username u = username then Some u else find_user_by_username_in us username)"

definition find_user_by_username :: "state \<Rightarrow> string \<Rightarrow> user option" where
  "find_user_by_username st username = find_user_by_username_in (users_db st) username"

fun find_user_by_email_in :: "user list \<Rightarrow> string \<Rightarrow> user option" where
  "find_user_by_email_in [] email = None"
| "find_user_by_email_in (u # us) email =
     (if u_email u = email then Some u else find_user_by_email_in us email)"

definition find_user_by_email :: "state \<Rightarrow> string \<Rightarrow> user option" where
  "find_user_by_email st email = find_user_by_email_in (users_db st) email"

definition find_user_by_username_or_email :: "state \<Rightarrow> string \<Rightarrow> user option" where
  "find_user_by_username_or_email st identifier =
     (if CHR ''@'' \<in> set identifier then find_user_by_email st identifier
      else find_user_by_username st identifier)"

fun find_product_in :: "Product list \<Rightarrow> int \<Rightarrow> Product option" where
  "find_product_in [] pid = None"
| "find_product_in (p # ps) pid =
     (if p_id p = pid then Some p else find_product_in ps pid)"

definition find_product_by_id :: "int \<Rightarrow> Product option" where
  "find_product_by_id pid = find_product_in sample_products pid"

section \<open>Routes\<close>

text \<open>
  Every handler takes the storage and returns its result, an error or a response,
  together with the storage it leaves behind.
\<close>

definition register_user ::
  "(string \<Rightarrow> string \<Rightarrow> string) \<Rightarrow> string \<Rightarrow> state \<Rightarrow> UserRegister \<Rightarrow> (error + UserResponse) \<times> state" where
  "register_user hashpw salt st user_data =
     (if find_user_by_username st (reg_username user_data) \<noteq> None
      then (Inl (HTTPException 400 ''Username already taken''), st)
      else if find_user_by_email st (reg_email user_data) \<noteq> None
      then (Inl (HTTPException 400 ''Email already registered''), st)
      else
        let new_user = \<lparr>u_id = next_user_id st,
                         u_username = reg_username user_data,
                         u_email = reg_email user_data,
                         u_hashed_password = hash_password hashpw salt (reg_password user_data)\<rparr>;
            st1 = st\<lparr>users_db := users_db st @ [new_user]\<rparr>;
            st2 = st1\<lparr>next_user_id := next_user_id st1 + 1\<rparr>;
            st3 = st2\<lparr>carts_db := (carts_db st2)(u_id new_user \<mapsto> [])\<rparr>
        in (Inr \<lparr>r_id = u_id new_user,
                  r_username = u_username new_user,
                  r_email = u_email new_user\<rparr>, st3))"

definition login_user ::
  "(string \<Rightarrow> string \<Rightarrow> bool) \<Rightarrow> state \<Rightarrow> UserLogin \<Rightarrow> (error + login_response) \<times> state" where
  "login_user checkpw st login_data =
     (case find_user_by_username_or_email st (username_or_email login_data) of
        None \<Rightarrow> (Inl (HTTPException 401 ''Invalid credentials''), st)
      | Some u \<Rightarrow>
          if \<not> verify_password checkpw (login_password login_data) (u_hashed_password u)
          then (Inl (HTTPException 401 ''Invalid credentials''), st)
          else (Inr \<lparr>lr_message = ''Login successful'',
                     lr_user = \<lparr>r_id = u_id u, r_username = u_username u,
                                r_email = u_email u\<rparr>\<rparr>, st))"

text \<open>
  The \<^verbatim>\<open>for ... else\<close> of \<^verbatim>\<open>add_to_cart\<close>: the first line item of the product gets the
  quantity added and the loop breaks; a loop that ends without a match appends.
\<close>

fun add_item :: "CartItem list \<Rightarrow> CartItem \<Rightarrow> CartItem list" where
  "add_item [] cart_item =
     [\<lparr>product_id = product_id cart_item, quantity = quantity cart_item\<rparr>]"
| "add_item (item # cart) cart_item =
     (if product_id item = product_id cart_item
      then item\<lparr>quantity := quantity item + quantity cart_item\<rparr> # cart
      else item # add_item cart cart_item)"

definition add_to_cart :: "state \<Rightarrow> CartItem \<Rightarrow> int \<Rightarrow> (error + add_response) \<times> state" where
  "add_to_cart st cart_item user_id =
     (if \<not> list_ex (\<lambda>u. u_id u = user_id) (users_db st)
      then (Inl (HTTPException 404 ''User not found''), st)
      else if find_product_by_id (product_id cart_item) = None
      then (Inl (HTTPException 404 ''Product not found''), st)
      else
        let st1 = (if carts_db st user_id = None
                   then st\<lparr>carts_db := (carts_db st)(user_id \<mapsto> [])\<rparr> else st);
            cart = (case carts_db st1 user_id of Some c \<Rightarrow> c | None \<Rightarrow> []);
            st2 = st1\<lparr>carts_db := (carts_db st1)(user_id \<mapsto> add_item cart cart_item)\<rparr>
        in (Inr \<lparr>ar_message = ''Product added to cart'',
                  ar_cart_item = cart_item,
                  ar_user_id = user_id\<rparr>, st2))"

fun get_cart_loop ::
  "CartItem list \<Rightarrow> cart_line list \<Rightarrow> int \<Rightarrow> error + cart_line list \<times> int" where
  "get_cart_loop [] cart_items total_items = Inr (cart_items, total_items)"
| "get_cart_loop (cart_item # rest) cart_items total_items =
     (case find_product_by_id (product_id cart_item) of
        None \<Rightarrow> get_cart_loop rest cart_items total_items
      | Some product \<Rightarrow>
          (case float_mul_int (p_price product) (quantity cart_item) of
             Inl e \<Rightarrow> Inl e
           | Inr item_total \<Rightarrow>
               get_cart_loop rest
                 (cart_items @ [\<lparr>cl_product_id = p_id product,
                                  cl_name = p_name product,
                                  cl_price = p_price product,
                                  cl_quantity = quantity cart_item,
                                  cl_item_total = item_total,
                                  cl_image = p_image product\<rparr>])
                 (total_items + quantity cart_item)))"

definition get_cart :: "state \<Rightarrow> int \<Rightarrow> (error + CartResponse) \<times> state" where
  "get_cart st user_id =
     (case carts_db st user_id of
        None \<Rightarrow> (Inl (HTTPException 404 ''Cart not found for this user''), st)
      | Some cart \<Rightarrow>
          (case get_cart_loop cart [] 0 of
             Inl e \<Rightarrow> (Inl e, st)
           | Inr (cart_items, total_items) \<Rightarrow>
               (Inr \<lparr>cr_user_id = user_id, cr_items = cart_items,
                     cr_total_items = total_items\<rparr>, st)))"

fun checkout_loop ::
  "CartItem list \<Rightarrow> order_line list \<Rightarrow> double \<Rightarrow> error + order_line list \<times> double" where
  "checkout_loop [] cart_items subtotal = Inr (cart_items, subtotal)"
| "checkout_loop (cart_item # rest) cart_items subtotal =
     (case find_product_by_id (product_id cart_item) of
        None \<Rightarrow> checkout_loop rest cart_items subtotal
      | Some product \<Rightarrow>
          (case float_mul_int (p_price product) (quantity cart_item) of
             Inl e \<Rightarrow> Inl e
           | Inr item_total \<Rightarrow>
               checkout_loop rest
                 (cart_items @ [\<lparr>ol_product_id = p_id product,
                                  ol_name = p_name product,
                                  ol_price = p_price product,
                                  ol_quantity = quantity cart_item,
                                  ol_item_total = item_total\<rparr>])
                 (float_add subtotal item_total)))"

definition checkout :: "state \<Rightarrow> int \<Rightarrow> (error + CheckoutResponse) \<times> state" where
  "checkout st user_id =
     (case carts_db st user_id of
        None \<Rightarrow> (Inl (HTTPException 400 ''Cart is empty''), st)
      | Some [] \<Rightarrow> (Inl (HTTPException 400 ''Cart is empty''), st)
      | Some cart \<Rightarrow>
          (case checkout_loop cart [] (Fin 0) of
             Inl e \<Rightarrow> (Inl e, st)
           | Inr (cart_items, subtotal) \<Rightarrow>
               (Inr \<lparr>co_user_id = user_id, co_items = cart_items,
                     co_subtotal = subtotal, co_total = subtotal,
                     co_message = ''Order placed successfully!''\<rparr>,
                st\<lparr>carts_db := (carts_db st)(user_id \<mapsto> [])\<rparr>)))"

section \<open>Sequences of requests\<close>

datatype request =
    Register string UserRegister
  | Login UserLogin
  | AddToCart CartItem int
  | GetCart int
  | Checkout int

fun handle ::
  "(string \<Rightarrow> string \<Rightarrow> string) \<Rightarrow> (string \<Rightarrow> string \<Rightarrow> bool) \<Rightarrow> state \<Rightarrow> request \<Rightarrow> state" where
  "handle hashpw checkpw st (Register salt user_data) = snd (register_user hashpw salt st user_data)"
| "handle hashpw checkpw st (Login login_data) = snd (login_user checkpw st login_data)"
| "handle hashpw checkpw st (AddToCart cart_item user_id) = snd (add_to_cart st cart_item user_id)"
| "handle hashpw checkpw st (GetCart user_id) = snd (get_cart st user_id)"
| "handle hashpw checkpw st (Checkout user_id) = snd (checkout st user_id)"

definition serve ::
  "(string \<Rightarrow> string \<Rightarrow> string) \<Rightarrow> (string \<Rightarrow> string \<Rightarrow> bool) \<Rightarrow> request list \<Rightarrow> state" where
  "serve hashpw checkpw reqs = foldl (handle hashpw checkpw) init_state reqs"

section \<open>What the specification calls the order\<close>

text \<open>
  The enriched line of a cart line item whose product the catalog resolves, the lines of
  a cart in cart order, and the sum of their item totals accumulated from \<open>0.0\<close> from
  left to right. These follow the wording of the specification; the handlers above do
  not use them.
\<close>

definition spec_order_line :: "CartItem \<Rightarrow> order_line option" where
  "spec_order_line ci =
     map_option
       (\<lambda>p. \<lparr>ol_product_id = p_id p, ol_name = p_name p, ol_price = p_price p,
             ol_quantity = quantity ci,
             ol_item_total = float_mul (p_price p) (round_double (of_int (quantity ci)))\<rparr>)
       (find_product_by_id (product_id ci))"

definition spec_order_lines :: "CartItem list \<Rightarrow> order_line list" where
  "spec_order_lines cart = List.map_filter spec_order_line cart"

definition spec_cart_line :: "CartItem \<Rightarrow> cart_line option" where
  "spec_cart_line ci =
     map_option
       (\<lambda>p. \<lparr>cl_product_id = p_id p, cl_name = p_name p, cl_price = p_price p,
             cl_quantity = quantity ci,
             cl_item_total = float_mul (p_price p) (round_double (of_int (quantity ci))),
             cl_image = p_image p\<rparr>)
       (find_product_by_id (product_id ci))"

definition spec_cart_lines :: "CartItem list \<Rightarrow> cart_line list" where
  "spec_cart_lines cart = List.map_filter spec_cart_line cart"

definition spec_sum :: "double list \<Rightarrow> double" where
  "spec_sum xs = foldl float_add (Fin 0) xs"

text \<open>The line items whose quantity Python can convert to a float.\<close>

definition convertible :: "CartItem list \<Rightarrow> bool" where
  "convertible cart =
     list_all (\<lambda>ci. find_product_by_id (product_id ci) = None
                   \<or> float_of_int (quantity ci) \<noteq> Inl OverflowError) cart"

section \<open>Invariants of the storage\<close>

definition cart_unique :: "state \<Rightarrow> bool" where
  "cart_unique st \<longleftrightarrow>
     (\<forall>user_id cart. carts_db st user_id = Some cart \<longrightarrow> distinct (map product_id cart))"

definition ids_sequential :: "state \<Rightarrow> bool" where
  "ids_sequential st \<longleftrightarrow>
     map u_id (users_db st) = [1 .. int (length (users_db st))]
     \<and> next_user_id st = int (length (users_db st)) + 1"

definition carts_wellformed :: "state \<Rightarrow> bool" where
  "carts_wellformed st \<longleftrightarrow>
     dom (carts_db st) \<subseteq> u_id ` set (users_db st)
     \<and> (\<forall>user_id cart. carts_db st user_id = Some cart \<longrightarrow>
           list_all (\<lambda>ci. find_product_by_id (product_id ci) \<noteq> None) cart)"

section \<open>Stand-ins for bcrypt and sample request sequences\<close>

definition test_hashpw :: "string \<Rightarrow> string \<Rightarrow> string" where
  "test_hashpw password salt = salt @ password"

definition test_checkpw :: "string \<Rightarrow> string \<Rightarrow> bool" where
  "test_checkpw plain hashed = (drop (length hashed - length plain) hashed = plain)"

definition alice :: UserRegister where
  "alice = \<lparr>reg_username = ''alice'', reg_email = ''alice@example.com'',
            reg_password = ''wonderland''\<rparr>"

definition bob :: UserRegister where
  "bob = \<lparr>reg_username = ''bob'', reg_email = ''bob@example.com'',
          reg_password = ''builder''\<rparr>"

definition alice_user :: user where
  "alice_user = \<lparr>u_id = 1, u_username = ''alice'', u_email = ''alice@example.com'',
                 u_hashed_password = ''saltwonderland''\<rparr>"

definition alice_state :: "CartItem list \<Rightarrow> state" where
  \<comment> \<open>the storage after alice registered and her cart became \<open>cart\<close>\<close>
  "alice_state cart = \<lparr>users_db = [alice_user], next_user_id = 2, carts_db = [1 \<mapsto> cart]\<rparr>"

section \<open>The example order of the specification and an oversized quantity\<close>

definition example_cart :: "CartItem list" where
  "example_cart = [\<lparr>product_id = 1, quantity = 2\<rparr>, \<lparr>product_id = 4, quantity = 1\<rparr>]"

definition example_order :: "int \<Rightarrow> CheckoutResponse" where
  "example_order user_id =
     \<lparr>co_user_id = user_id,
      co_items =
        [\<lparr>ol_product_id = 1, ol_name = ''iPhone 15 Pro'',
          ol_price = Fin (4398002530638889 / 4398046511104), ol_quantity = 2,
          ol_item_total = Fin (4398002530638889 / 2199023255552)\<rparr>,
         \<lparr>ol_product_id = 4, ol_name = ''Sony Headphones'',
          ol_price = Fin (1539272298421289 / 4398046511104), ol_quantity = 1,
          ol_item_total = Fin (1539272298421289 / 4398046511104)\<rparr>],
      co_subtotal = Fin (2583819339924767 / 1099511627776),
      co_total = Fin (2583819339924767 / 1099511627776),
      co_message = ''Order placed successfully!''\<rparr>"

definition huge :: int where
  "huge = 2 ^ 1024"

definition overflow_cart :: "CartItem list" where
  "overflow_cart = [\<lparr>product_id = 1, quantity = huge\<rparr>]"

section \<open>Evaluation and loop lemmas\<close>

subsection \<open>Evaluating floats\<close>

lemma floor_rat_numeral: "\<lfloor>numeral a / numeral b :: rat\<rfloor> = numeral a div numeral b"
  by (metis floor_divide_of_int_eq of_int_numeral)

lemma floor_rat_neg_numeral:
  "\<lfloor>- (numeral a / numeral b) :: rat\<rfloor> = - numeral a div numeral b"
  by (metis divide_minus_left floor_divide_of_int_eq of_int_neg_numeral of_int_numeral)

lemma ceiling_rat_numeral:
  "\<lceil>numeral a / numeral b :: rat\<rceil> = - (- numeral a div numeral b)"
  by (metis ceiling_def floor_rat_neg_numeral)

lemma bit_length_pos: "0 < n \<Longrightarrow> bit_length n = Suc (bit_length (n div 2))"
  by (subst bit_length.simps) simp

lemma bit_length_nonpos: "n \<le> 0 \<Longrightarrow> bit_length n = 0"
  by (subst bit_length.simps) simp

lemmas float_eval = round_double_def floor_log2_def pow2_def round_half_even_def Let_def
  bit_length_pos bit_length_nonpos floor_rat_numeral floor_rat_neg_numeral ceiling_rat_numeral

lemma float_of_int_cases:
  "float_of_int n = Inl OverflowError \<or> float_of_int n = Inr (round_double (of_int n))"
  by (cases "round_double (of_int n)") (simp_all add: float_of_int_def)

lemma float_of_int_error: "float_of_int n = Inl e \<Longrightarrow> e = OverflowError"
  using float_of_int_cases [of n] by auto

lemma float_mul_int_error: "float_mul_int x n = Inl e \<Longrightarrow> e = OverflowError"
  by (auto simp: float_mul_int_def split: sum.splits dest: float_of_int_error)

lemma float_mul_int_ok:
  "float_of_int n \<noteq> Inl OverflowError \<Longrightarrow>
   float_mul_int x n = Inr (float_mul x (round_double (of_int n)))"
  using float_of_int_cases [of n] by (auto simp: float_mul_int_def)

lemma float_mul_int_overflow:
  "float_of_int n = Inl OverflowError \<Longrightarrow> float_mul_int x n = Inl OverflowError"
  by (simp add: float_mul_int_def)

subsection \<open>The catalog\<close>

lemma find_product_in_id: "find_product_in ps pid = Some p \<Longrightarrow> p_id p = pid"
  by (induction ps) (auto split: if_splits)

lemma find_product_by_id_id: "find_product_by_id pid = Some p \<Longrightarrow> p_id p = pid"
  by (simp add: find_product_by_id_def find_product_in_id)

lemma price_1: "round_double (99999 / 100) = Fin (4398002530638889 / 4398046511104)"
  by (simp add: float_eval)

lemma price_4: "round_double (34999 / 100) = Fin (1539272298421289 / 4398046511104)"
  by (simp add: float_eval)

lemma find_product_1:
  "find_product_by_id 1 =
     Some \<lparr>p_id = 1, p_name = ''iPhone 15 Pro'',
            p_description = Some ''Latest iPhone with advanced camera'',
            p_price = Fin (4398002530638889 / 4398046511104),
            p_image = Some ''https://example.com/iphone15.jpg''\<rparr>"
  by (simp add: find_product_by_id_def sample_products_def price_1)

lemma find_product_4:
  "find_product_by_id 4 =
     Some \<lparr>p_id = 4, p_name = ''Sony Headphones'',
            p_description = Some ''Wireless noise-canceling headphones'',
            p_price = Fin (1539272298421289 / 4398046511104),
            p_image = Some ''https://example.com/sony_headphones.jpg''\<rparr>"
  by (simp add: find_product_by_id_def sample_products_def price_4)

lemma find_product_by_id_iff: "find_product_by_id pid \<noteq> None \<longleftrightarrow> pid \<in> {1, 2, 3, 4, 5}"
  by (auto simp: find_product_by_id_def sample_products_def)

subsection \<open>The loops of get_cart and checkout\<close>

lemma map_filter_Cons_None: "f x = None \<Longrightarrow> List.map_filter f (x # xs) = List.map_filter f xs"
  by (simp add: List.map_filter_simps)

lemma map_filter_Cons_Some: "f x = Some y \<Longrightarrow> List.map_filter f (x # xs) = y # List.map_filter f xs"
  by (simp add: List.map_filter_simps)

lemma checkout_loop_ok:
  "convertible cart \<Longrightarrow>
   checkout_loop cart acc sub =
     Inr (acc @ spec_order_lines cart,
          foldl float_add sub (map ol_item_total (spec_order_lines cart)))"
proof (induction cart arbitrary: acc sub)
  case Nil
  then show ?case by (simp add: spec_order_lines_def List.map_filter_simps)
next
  case (Cons ci cart)
  from Cons.prems have rest: "convertible cart"
    by (simp add: convertible_def)
  show ?case
  proof (cases "find_product_by_id (product_id ci)")
    case None
    then have "spec_order_lines (ci # cart) = spec_order_lines cart"
      by (simp add: spec_order_lines_def spec_order_line_def map_filter_Cons_None)
    with None Cons.IH [OF rest] show ?thesis by simp
  next
    case (Some p)
    with Cons.prems have "float_of_int (quantity ci) \<noteq> Inl OverflowError"
      by (simp add: convertible_def)
    then have mul: "float_mul_int (p_price p) (quantity ci) =
        Inr (float_mul (p_price p) (round_double (of_int (quantity ci))))"
      by (rule float_mul_int_ok)
    from Some have "spec_order_lines (ci # cart) =
        \<lparr>ol_product_id = p_id p, ol_name = p_name p, ol_price = p_price p,
          ol_quantity = quantity ci,
          ol_item_total = float_mul (p_price p) (round_double (of_int (quantity ci)))\<rparr>
        # spec_order_lines cart"
      by (simp add: spec_order_lines_def spec_order_line_def map_filter_Cons_Some)
    with Some mul Cons.IH [OF rest] show ?thesis by simp
  qed
qed

lemma checkout_loop_error: "checkout_loop cart acc sub = Inl e \<Longrightarrow> e = OverflowError"
  by (induction cart arbitrary: acc sub)
     (auto split: option.splits sum.splits dest: float_mul_int_error)

lemma checkout_loop_overflow:
  "\<not> convertible cart \<Longrightarrow> checkout_loop cart acc sub = Inl OverflowError"
proof (induction cart arbitrary: acc sub)
  case Nil
  then show ?case by (simp add: convertible_def)
next
  case (Cons ci cart)
  show ?case
  proof (cases "find_product_by_id (product_id ci)")
    case None
    with Cons.prems have "\<not> convertible cart" by (simp add: convertible_def)
    with None Cons.IH show ?thesis by simp
  next
    case (Some p)
    show ?thesis
    proof (cases "float_of_int (quantity ci) = Inl OverflowError")
      case True
      with Some show ?thesis by (simp add: float_mul_int_overflow)
    next
      case False
      with Some Cons.prems have "\<not> convertible cart" by (simp add: convertible_def)
      with Some False Cons.IH show ?thesis by (simp add: float_mul_int_ok)
    qed
  qed
qed

lemma get_cart_loop_ok:
  "convertible cart \<Longrightarrow>
   get_cart_loop cart acc n =
     Inr (acc @ spec_cart_lines cart, n + sum_list (map cl_quantity (spec_cart_lines cart)))"
proof (induction cart arbitrary: acc n)
  case Nil
  then show ?case by (simp add: spec_cart_lines_def List.map_filter_simps)
next
  case (Cons ci cart)
  from Cons.prems have rest: "convertible cart"
    by (simp add: convertible_def)
  show ?case
  proof (cases "find_product_by_id (product_id ci)")
    case None
    then have "spec_cart_lines (ci # cart) = spec_cart_lines cart"
      by (simp add: spec_cart_lines_def spec_cart_line_def map_filter_Cons_None)
    with None Cons.IH [OF rest] show ?thesis by simp
  next
    case (Some p)
    with Cons.prems have "float_of_int (quantity ci) \<noteq> Inl OverflowError"
      by (simp add: convertible_def)
    then have mul: "float_mul_int (p_price p) (quantity ci) =
        Inr (float_mul (p_price p) (round_double (of_int (quantity ci))))"
      by (rule float_mul_int_ok)
    from Some have "spec_cart_lines (ci # cart) =
        \<lparr>cl_product_id = p_id p, cl_name = p_name p, cl_price = p_price p,
          cl_quantity = quantity ci,
          cl_item_total = float_mul (p_price p) (round_double (of_int (quantity ci))),
          cl_image = p_image p\<rparr>
        # spec_cart_lines cart"
      by (simp add: spec_cart_lines_def spec_cart_line_def map_filter_Cons_Some)
    with Some mul Cons.IH [OF rest] show ?thesis by simp
  qed
qed

lemma get_cart_loop_error: "get_cart_loop cart acc n = Inl e \<Longrightarrow> e = OverflowError"
  by (induction cart arbitrary: acc n)
     (auto split: option.splits sum.splits dest: float_mul_int_error)

lemma get_cart_loop_overflow:
  "\<not> convertible cart \<Longrightarrow> get_cart_loop cart acc n = Inl OverflowError"
proof (induction cart arbitrary: acc n)
  case Nil
  then show ?case by (simp add: convertible_def)
next
  case (Cons ci cart)
  show ?case
  proof (cases "find_product_by_id (product_id ci)")
    case None
    with Cons.prems have "\<not> convertible cart" by (simp add: convertible_def)
    with None Cons.IH show ?thesis by simp
  next
    case (Some p)
    show ?thesis
    proof (cases "float_of_int (quantity ci) = Inl OverflowError")
      case True
      with Some show ?thesis by (simp add: float_mul_int_overflow)
    next
      case False
      with Some Cons.prems have "\<not> convertible cart" by (simp add: convertible_def)
      with Some False Cons.IH show ?thesis by (simp add: float_mul_int_ok)
    qed
  qed
qed

section \<open>Checkout\<close>

lemma checkout_Some:
  "carts_db st user_id = Some cart \<Longrightarrow> cart \<noteq> [] \<Longrightarrow>
   checkout st user_id =
     (case checkout_loop cart [] (Fin 0) of
        Inl e \<Rightarrow> (Inl e, st)
      | Inr (cart_items, subtotal) \<Rightarrow>
          (Inr \<lparr>co_user_id = user_id, co_items = cart_items,
                co_subtotal = subtotal, co_total = subtotal,
                co_message = ''Order placed successfully!''\<rparr>,
           st\<lparr>carts_db := (carts_db st)(user_id \<mapsto> [])\<rparr>))"
  by (cases cart) (simp_all add: checkout_def)

lemma checkout_empty:
  "carts_db st user_id = None \<or> carts_db st user_id = Some [] \<Longrightarrow>
   checkout st user_id = (Inl (HTTPException 400 ''Cart is empty''), st)"
  by (auto simp: checkout_def)

lemma float_2: "round_double 2 = Fin 2"
  by (simp add: float_eval)

lemma float_1: "round_double 1 = Fin 1"
  by (simp add: float_eval)

lemma float_of_int_2: "float_of_int 2 = Inr (Fin 2)"
  by (simp add: float_of_int_def float_2)

lemma float_of_int_1: "float_of_int 1 = Inr (Fin 1)"
  by (simp add: float_of_int_def float_1)

lemma float_of_int_huge: "float_of_int huge = Inl OverflowError"
  by (simp add: huge_def float_of_int_def float_eval)

lemma item_total_1:
  "float_mul (Fin (4398002530638889 / 4398046511104)) (Fin 2) = Fin (4398002530638889 / 2199023255552)"
  by (simp add: float_eval)

lemma item_total_4:
  "float_mul (Fin (1539272298421289 / 4398046511104)) (Fin 1) = Fin (1539272298421289 / 4398046511104)"
  by (simp add: float_eval)

lemma subtotal_1:
  "float_add (Fin 0) (Fin (4398002530638889 / 2199023255552)) = Fin (4398002530638889 / 2199023255552)"
  by (simp add: float_eval)

lemma subtotal_2:
  "float_add (Fin (4398002530638889 / 2199023255552)) (Fin (1539272298421289 / 4398046511104))
     = Fin (2583819339924767 / 1099511627776)"
  by (simp add: float_eval)

lemma literal_2349_97: "round_double (234997 / 100) = Fin (5167638679849533 / 2199023255552)"
  by (simp add: float_eval)

lemma convertible_example: "convertible example_cart"
  by (simp add: convertible_def example_cart_def float_of_int_1 float_of_int_2)

lemma order_lines_example: "spec_order_lines example_cart = co_items (example_order user_id)"
  by (simp add: spec_order_lines_def spec_order_line_def example_cart_def example_order_def
      List.map_filter_simps find_product_1 find_product_4 float_1 float_2 item_total_1 item_total_4
      del: float_mul.simps float_add.simps)

lemma checkout_loop_example:
  "checkout_loop example_cart [] (Fin 0) =
     Inr (co_items (example_order user_id), Fin (2583819339924767 / 1099511627776))"
  by (simp add: example_cart_def example_order_def find_product_1 find_product_4
      float_mul_int_def float_of_int_1 float_of_int_2 item_total_1 item_total_4
      subtotal_1 subtotal_2 del: float_mul.simps float_add.simps)

lemma example_cart_nonempty: "example_cart \<noteq> []"
  by (simp add: example_cart_def)

lemma checkout_example:
  assumes "carts_db st user_id = Some example_cart"
  shows "checkout st user_id =
           (Inr (example_order user_id), st\<lparr>carts_db := (carts_db st)(user_id \<mapsto> [])\<rparr>)"
proof -
  have "checkout_loop example_cart [] (Fin 0) =
      Inr (co_items (example_order user_id), co_subtotal (example_order user_id))"
    by (simp add: checkout_loop_example [of user_id]) (simp add: example_order_def)
  then show ?thesis
    by (simp add: checkout_Some [OF assms example_cart_nonempty]) (simp add: example_order_def)
qed

lemma alice_state_cart: "carts_db (alice_state cart) 1 = Some cart"
  by (simp add: alice_state_def)

lemma alice_state_clear:
  "(alice_state cart)\<lparr>carts_db := (carts_db (alice_state cart))(1 \<mapsto> [])\<rparr> = alice_state []"
  by (simp add: alice_state_def)

lemma checkout_alice_example:
  "checkout (alice_state example_cart) 1 = (Inr (example_order 1), alice_state [])"
  by (simp add: checkout_example [OF alice_state_cart] alice_state_clear)

text \<open>
  C1. When the user's cart entry exists, holds at least one line item, and the quantity
  of every line item the catalog resolves converts to a float, \<open>checkout\<close> succeeds:
  the returned lines are those of the resolvable items in cart order, \<open>subtotal\<close> is the
  sum of their \<open>price * quantity\<close> accumulated in double precision from \<open>0.0\<close> from
  left to right, \<open>total\<close> equals \<open>subtotal\<close>, and the only change of the storage is
  that the user's cart becomes the empty list, the entry staying in \<^verbatim>\<open>carts_db\<close>.
\<close>

theorem checkout_totals_and_clears:
  assumes "carts_db st user_id = Some cart" and "cart \<noteq> []" and "convertible cart"
  shows "checkout st user_id =
     (Inr \<lparr>co_user_id = user_id, co_items = spec_order_lines cart,
           co_subtotal = spec_sum (map ol_item_total (spec_order_lines cart)),
           co_total = spec_sum (map ol_item_total (spec_order_lines cart)),
           co_message = ''Order placed successfully!''\<rparr>,
      st\<lparr>carts_db := (carts_db st)(user_id \<mapsto> [])\<rparr>)"
  using assms by (simp add: checkout_Some checkout_loop_ok spec_sum_def)

theorem checkout_totals_and_clears_witness:
  "carts_db (alice_state example_cart) 1 = Some example_cart \<and> example_cart \<noteq> []
   \<and> convertible example_cart
   \<and> checkout (alice_state example_cart) 1 = (Inr (example_order 1), alice_state [])"
proof -
  have c: "carts_db (alice_state example_cart) 1 = Some example_cart"
    by (simp add: alice_state_def)
  have n: "example_cart \<noteq> []"
    by (simp add: example_cart_def)
  have s: "spec_sum (map ol_item_total (co_items (example_order 1)))
      = Fin (2583819339924767 / 1099511627776)"
    by (simp add: spec_sum_def example_order_def subtotal_1 subtotal_2
        del: float_mul.simps float_add.simps)
  have "checkout (alice_state example_cart) 1 = (Inr (example_order 1), alice_state [])"
    using checkout_totals_and_clears [OF c n convertible_example]
    by (simp add: order_lines_example [of 1] s alice_state_clear) (simp add: example_order_def)
  with c n convertible_example show ?thesis by simp
qed

theorem checkout_overflow_counterexample:
  "serve test_hashpw test_checkpw
     [Register ''salt'' alice, AddToCart \<lparr>product_id = 1, quantity = huge\<rparr> 1]
     = alice_state overflow_cart
   \<and> carts_db (alice_state overflow_cart) 1 = Some overflow_cart
   \<and> overflow_cart \<noteq> []
   \<and> checkout (alice_state overflow_cart) 1 = (Inl OverflowError, alice_state overflow_cart)"
proof -
  have "serve test_hashpw test_checkpw
     [Register ''salt'' alice, AddToCart \<lparr>product_id = 1, quantity = huge\<rparr> 1]
     = alice_state overflow_cart"
    by (simp add: serve_def register_user_def add_to_cart_def init_state_def alice_def
        alice_state_def alice_user_def overflow_cart_def find_user_by_username_def
        find_user_by_email_def hash_password_def test_hashpw_def Let_def find_product_1)
  moreover have "checkout (alice_state overflow_cart) 1 = (Inl OverflowError, alice_state overflow_cart)"
    by (simp add: checkout_def alice_state_def overflow_cart_def find_product_1
        float_mul_int_def float_of_int_huge)
  ultimately show ?thesis
    by (simp add: alice_state_def overflow_cart_def)
qed

text \<open>
  C2. \<open>checkout\<close> fails with \<^verbatim>\<open>400 "Cart is empty"\<close> exactly when the user has no cart
  entry or an entry with no line item; that failure leaves the storage as it was; and a
  second checkout right after a successful one fails with \<^verbatim>\<open>400 "Cart is empty"\<close>.
\<close>

theorem checkout_empty_cart:
  "(fst (checkout st user_id) = Inl (HTTPException 400 ''Cart is empty'')
      \<longleftrightarrow> carts_db st user_id = None \<or> carts_db st user_id = Some [])
   \<and> (fst (checkout st user_id) = Inl (HTTPException 400 ''Cart is empty'')
      \<longrightarrow> snd (checkout st user_id) = st)
   \<and> (\<forall>response st'. checkout st user_id = (Inr response, st')
      \<longrightarrow> checkout st' user_id = (Inl (HTTPException 400 ''Cart is empty''), st'))"
proof (cases "carts_db st user_id = None \<or> carts_db st user_id = Some []")
  case True
  then show ?thesis by (simp add: checkout_empty)
next
  case False
  then obtain cart where cart: "carts_db st user_id = Some cart" "cart \<noteq> []"
    by auto
  show ?thesis
  proof (cases "checkout_loop cart [] (Fin 0)")
    case (Inl e)
    then have "e = OverflowError" by (rule checkout_loop_error)
    with Inl cart False show ?thesis by (simp add: checkout_Some)
  next
    case (Inr r)
    obtain cart_items subtotal where "r = (cart_items, subtotal)" by (cases r)
    with Inr cart False show ?thesis by (auto simp: checkout_Some checkout_empty)
  qed
qed

theorem checkout_empty_cart_witness:
  "carts_db init_state 1 = None
   \<and> checkout init_state 1 = (Inl (HTTPException 400 ''Cart is empty''), init_state)
   \<and> checkout (alice_state example_cart) 1 = (Inr (example_order 1), alice_state [])
   \<and> checkout (alice_state []) 1 = (Inl (HTTPException 400 ''Cart is empty''), alice_state [])"
proof -
  have none: "carts_db init_state 1 = None"
    by (simp add: init_state_def)
  note first = checkout_alice_example
  from checkout_empty_cart [of init_state 1] none
  have "checkout init_state 1 = (Inl (HTTPException 400 ''Cart is empty''), init_state)"
    by (metis prod.collapse)
  moreover from checkout_empty_cart [of "alice_state example_cart" 1] first
  have "checkout (alice_state []) 1 = (Inl (HTTPException 400 ''Cart is empty''), alice_state [])"
    by blast
  ultimately show ?thesis using none first by simp
qed

text \<open>
  C9. For a cart holding (product 1, quantity 2) and (product 4, quantity 1), with the
  catalog prices \<open>999.99\<close> and \<open>349.99\<close>, \<open>checkout\<close> returns \<open>subtotal\<close> and \<open>total\<close>
  both equal to the double \<open>2583819339924767 / 2^40\<close>, which Python prints as
  \<open>2349.9700000000003\<close>, and afterwards the user's cart entry exists and is empty.
  The double nearest to \<open>2349.97\<close> is \<open>5167638679849533 / 2^41\<close>, one unit in the last
  place below.
\<close>

theorem checkout_example_total:
  assumes "carts_db st user_id = Some example_cart"
  shows "checkout st user_id =
           (Inr (example_order user_id), st\<lparr>carts_db := (carts_db st)(user_id \<mapsto> [])\<rparr>)
         \<and> co_subtotal (example_order user_id) = Fin (2583819339924767 / 1099511627776)
         \<and> co_total (example_order user_id) = Fin (2583819339924767 / 1099511627776)
         \<and> carts_db (snd (checkout st user_id)) user_id = Some []"
proof -
  from assms have "checkout st user_id =
      (Inr (example_order user_id), st\<lparr>carts_db := (carts_db st)(user_id \<mapsto> [])\<rparr>)"
    by (rule checkout_example)
  then show ?thesis by (simp add: example_order_def)
qed

theorem checkout_example_total_witness:
  "carts_db (alice_state example_cart) 1 = Some example_cart
   \<and> checkout (alice_state example_cart) 1 = (Inr (example_order 1), alice_state [])
   \<and> carts_db (alice_state []) 1 = Some []"
proof -
  have c: "carts_db (alice_state example_cart) 1 = Some example_cart"
    by (simp add: alice_state_def)
  from checkout_example_total [OF c] c show ?thesis
    by (simp add: alice_state_clear alice_state_cart)
qed

theorem checkout_example_total_counterexample:
  "checkout (alice_state example_cart) 1 = (Inr (example_order 1), alice_state [])
   \<and> co_subtotal (example_order 1) \<noteq> round_double (234997 / 100)
   \<and> co_subtotal (example_order 1) \<noteq> Fin (234997 / 100)
   \<and> co_total (example_order 1) \<noteq> round_double (234997 / 100)
   \<and> co_total (example_order 1) \<noteq> Fin (234997 / 100)"
proof -
  have "co_subtotal (example_order 1) \<noteq> round_double (234997 / 100)"
    by (simp add: example_order_def literal_2349_97)
  moreover have "co_total (example_order 1) \<noteq> round_double (234997 / 100)"
    by (simp add: example_order_def literal_2349_97)
  ultimately show ?thesis
    using checkout_alice_example by (simp add: example_order_def)
qed

end
